theory Spec2Isabelle
  imports Main
begin

section \<open>The error taxonomy of rsocket/errors.py\<close>

subsection \<open>Data\<close>

text \<open>
  Modelled from the spec: the declaration of \<open>ErrorCode\<close> lives in rsocket/frame.py, which
  is not among the sources. errors.py names eight of its members, and the specification
  lists the same eight as the connection-scope and the stream-scope code sets. They are the
  first eight constructors; \<open>UNNAMED_CODE n\<close> stands for any other value a caller may pass
  as an error code.
\<close>

datatype ErrorCode =
    INVALID_SETUP
  | UNSUPPORTED_SETUP
  | REJECTED_SETUP
  | CONNECTION_ERROR
  | APPLICATION_ERROR
  | REJECTED
  | CANCELED
  | INVALID
  | UNNAMED_CODE int

text \<open>
  The subclasses of \<open>CustomException\<close>, in the order errors.py declares them. None of them
  adds a field or a method, so an exception object is its class together with the two
  attributes that \<open>CustomException.__init__\<close> stores.
\<close>

datatype exception_class =
    InvalidSetupException
  | RejectedSetupException
  | UnsupportedSetupException
  | ConnectionErrorException
  | IllegalArgumentException
  | ApplicationException
  | RejectedException
  | ConnectionException
  | CanceledException
  | InvalidException

record CustomException =
  cls :: exception_class
  err_code :: ErrorCode
  err_msg :: string

text \<open>
  What a Python call does: it returns a value or it raises an exception object.
\<close>

datatype 'a outcome = Return 'a | Raise CustomException

definition ERROR_INVALID_STREAM :: string where
  "ERROR_INVALID_STREAM = ''SETUP or RESUME is not a frame with stream id of 0''"

definition ERROR_INVALID_FIRST_FRAME :: string where
  "ERROR_INVALID_FIRST_FRAME = ''first frame must be setup or resume''"

definition ERROR_UNSUPPORTED_RESUME :: string where
  "ERROR_UNSUPPORTED_RESUME = ''unsupported resume yet''"

subsection \<open>Python's \<open>str\<close> of an integer and \<open>str.format\<close>\<close>

definition digit_char :: "nat \<Rightarrow> char" where
  "digit_char d = ''0123456789'' ! d"

fun str_nat :: "nat \<Rightarrow> string" where
  "str_nat n = (if n < 10 then [digit_char n] else str_nat (n div 10) @ [digit_char (n mod 10)])"

declare str_nat.simps [simp del]

definition str_int :: "int \<Rightarrow> string" where
  "str_int i = (if i < 0 then CHR ''-'' # str_nat (nat (- i)) else str_nat (nat i))"

text \<open>
  \<open>"Invalid Error frame in Stream ID 0: {}, '{}'".format(stream_id, err_msg)\<close>: the first
  placeholder receives the stream id, the second, between apostrophes, the message.
\<close>

definition invalid_error_frame_msg :: "int \<Rightarrow> string \<Rightarrow> string" where
  "invalid_error_frame_msg sid msg =
     ''Invalid Error frame in Stream ID 0: '' @ str_int sid @ '', '' @ [CHR 0x27] @ msg @ [CHR 0x27]"

subsection \<open>Frames\<close>

text \<open>
  Modelled from the spec: the frame classes live in rsocket/frame.py, which is not among the
  sources. A frame is what \<open>verify_first_frame\<close> reads of it: its stream id and its class,
  one of the frame types that the specification's frame codec boundary lists.
  \<open>isinstance(frame, SetupFrame)\<close> holds for the setup frames only.
\<close>

datatype frame_type =
    SETUP
  | RESUME
  | REQUEST_FNF
  | REQUEST_RESPONSE
  | REQUEST_STREAM
  | REQUEST_CHANNEL
  | REQUEST_N
  | CANCEL
  | PAYLOAD
  | ERROR
  | KEEPALIVE

record Frame =
  stream_id :: int
  frame_type :: frame_type

definition isinstance_SetupFrame :: "Frame \<Rightarrow> bool" where
  "isinstance_SetupFrame frame = (frame_type frame = SETUP)"

subsection \<open>\<open>RuntimeExceptions.handle\<close>\<close>

definition handle :: "int \<Rightarrow> ErrorCode \<Rightarrow> string \<Rightarrow> CustomException outcome" where
  "handle sid code msg =
     (if sid = 0 then
        (if code = INVALID_SETUP then
           Return \<lparr>cls = InvalidSetupException, err_code = code, err_msg = msg\<rparr>
         else if code = UNSUPPORTED_SETUP then
           Return \<lparr>cls = UnsupportedSetupException, err_code = code, err_msg = msg\<rparr>
         else if code = REJECTED_SETUP then
           Return \<lparr>cls = RejectedSetupException, err_code = code, err_msg = msg\<rparr>
         else if code = CONNECTION_ERROR then
           Return \<lparr>cls = ConnectionErrorException, err_code = code, err_msg = msg\<rparr>
         else
           Return \<lparr>cls = IllegalArgumentException, err_code = code,
                   err_msg = invalid_error_frame_msg sid msg\<rparr>)
      else
        (if code = APPLICATION_ERROR then
           Return \<lparr>cls = ApplicationException, err_code = code, err_msg = msg\<rparr>
         else if code = REJECTED then
           Return \<lparr>cls = RejectedException, err_code = code, err_msg = msg\<rparr>
         else if code = CANCELED then
           Return \<lparr>cls = CanceledException, err_code = code, err_msg = msg\<rparr>
         else if code = INVALID then
           Return \<lparr>cls = InvalidException, err_code = code, err_msg = msg\<rparr>
         else
           Return \<lparr>cls = IllegalArgumentException, err_code = code,
                   err_msg = invalid_error_frame_msg sid msg\<rparr>))"

subsection \<open>\<open>verify_first_frame\<close>\<close>

text \<open>
  The function has no \<open>return\<close> statement: when neither check fires, the call returns
  \<open>None\<close>, here the unit value.
\<close>

definition verify_first_frame :: "Frame \<Rightarrow> unit outcome" where
  "verify_first_frame frame =
     (if \<not> stream_id frame = 0 then
        Raise \<lparr>cls = InvalidSetupException, err_code = INVALID_SETUP,
               err_msg = ERROR_INVALID_STREAM\<rparr>
      else if \<not> isinstance_SetupFrame frame then
        Raise \<lparr>cls = InvalidSetupException, err_code = INVALID_SETUP,
               err_msg = ERROR_INVALID_FIRST_FRAME\<rparr>
      else Return ())"

section \<open>The interaction state machines\<close>

text \<open>
  The multiplexer and the per-stream state machines (rsocket/rsocket.py and the reactive
  streams glue) are not among the sources; only tests/rsocket/test_rsocket.py, which drives
  them, is. The definitions of this section follow the specification's description of the
  interaction state machines.
\<close>

subsection \<open>Lifecycle\<close>

text \<open>
  Modelled from the spec: the common states of a stream state machine, "Initiated, Active,
  then Completed, Errored or Canceled"; the last three are terminal and absorbing. The
  implementation of the state machines is missing from the sources.
\<close>

datatype lifecycle = Initiated | Active | Completed | Errored | Canceled

subsection \<open>Request-stream under request-n credit\<close>

text \<open>
  Modelled from the spec: the attributes of a request-stream state machine, whose
  implementation is missing from the sources: its lifecycle state, its outstanding
  request-n credit (a signed integer), the items that the handler's reactive producer has
  still to yield, and the items emitted to the peer so far, oldest first.
\<close>

record 'a request_stream =
  lifecycle :: lifecycle
  credit :: int
  source :: "'a list"
  emitted :: "'a list"

text \<open>
  Modelled from the spec: what can happen to a request-stream, whose implementation is
  missing from the sources: the producer is given a turn to yield its next item, a
  request-n frame arrives from the peer, a cancel frame arrives from the peer.
\<close>

datatype stream_event = Produce | RequestN nat | Cancel

text \<open>
  Modelled from the spec: "Initial credit equals the request-n value carried on the
  initiating frame." The stream is active once the handler has returned its producer.
\<close>

definition initiate_stream :: "nat \<Rightarrow> 'a list \<Rightarrow> 'a request_stream" where
  "initiate_stream n items = \<lparr>lifecycle = Active, credit = int n, source = items, emitted = []\<rparr>"

text \<open>
  Modelled from the spec: "The state machine emits at most credit items, decrementing credit
  per item; when credit reaches zero it must stop emitting and await a request-n frame from
  the peer before resuming"; "an inbound request-n frame increments it"; "A cancel frame
  from the peer at any time transitions to Canceled and must synchronously halt
  production"; "any frame received after a terminal state is reached is ignored". A producer
  with nothing left to yield completes the stream.
\<close>

fun stream_step :: "'a request_stream \<Rightarrow> stream_event \<Rightarrow> 'a request_stream" where
  "stream_step s Produce =
     (if lifecycle s = Active then
        (case source s of
           [] \<Rightarrow> s\<lparr>lifecycle := Completed\<rparr>
         | x # xs \<Rightarrow>
             if 0 < credit s
             then s\<lparr>credit := credit s - 1, source := xs, emitted := emitted s @ [x]\<rparr>
             else s)
      else s)"
| "stream_step s (RequestN n) =
     (if lifecycle s = Active then s\<lparr>credit := credit s + int n\<rparr> else s)"
| "stream_step s Cancel =
     (if lifecycle s = Active then s\<lparr>lifecycle := Canceled\<rparr> else s)"

text \<open>
  Modelled from the spec: "frames for a given stream id are processed in the order
  received": the events of one stream are applied one after the other.
\<close>

fun stream_run :: "'a request_stream \<Rightarrow> stream_event list \<Rightarrow> 'a request_stream" where
  "stream_run s [] = s"
| "stream_run s (ev # evs) = stream_run (stream_step s ev) evs"

fun is_request_n :: "stream_event \<Rightarrow> bool" where
  "is_request_n (RequestN n) = True"
| "is_request_n ev = False"

subsection \<open>Request-response and its cancellation\<close>

text \<open>
  Modelled from the spec: a payload is "an immutable pair of opaque byte sequences (data,
  metadata), either of which may be absent". The payload class is missing from the sources.
\<close>

type_synonym payload = "string option \<times> string option"

text \<open>
  Modelled from the spec: a deferred single result, as the caller of request-response and
  the handler binding hold one: still pending, completed with a payload, completed with an
  error, or cancelled. The implementation is missing from the sources.
\<close>

datatype deferred = Pending | Done payload | Failed ErrorCode string | Cancelled

text \<open>
  Modelled from the spec: the frames that a request-response exchange sends once the
  request has been made: the payload of the response, an error, a cancel.
\<close>

datatype rr_frame = PayloadFrame payload | ErrorFrame ErrorCode string | CancelFrame

text \<open>
  Modelled from the spec: one request-response exchange, whose implementation is missing
  from the sources. The requester holds the deferred result that the original caller
  awaits, the responder holds the deferred result that its handler returned; each side has
  its own state machine, and the frames in flight in either direction are kept in order.
\<close>

record request_response =
  caller :: deferred
  requester :: lifecycle
  handler_result :: deferred
  responder :: lifecycle
  to_responder :: "rr_frame list"
  to_requester :: "rr_frame list"

text \<open>
  Modelled from the spec: what can happen to the exchange: the caller cancels its deferred
  result, the handler's deferred result completes with a payload or with an error, the
  transport delivers the next frame to either side.
\<close>

datatype rr_event =
    CallerCancel
  | HandlerComplete payload
  | HandlerFail string
  | DeliverToResponder
  | DeliverToRequester

text \<open>
  Modelled from the spec: "on receipt of a request frame, the Multiplexer invokes the
  Handler Binding, which returns a deferred single result": the exchange, once the request
  has reached the responder and its handler has returned a result that is still pending.
\<close>

definition pending_call :: request_response where
  "pending_call =
     \<lparr>caller = Pending, requester = Active, handler_result = Pending, responder = Active,
      to_responder = [], to_requester = []\<rparr>"

text \<open>
  Modelled from the spec: "Exactly one of payload success, error is subsequently emitted as
  the corresponding frame, after which the state transitions to Completed/Errored. If the
  deferred result is canceled locally before completion, a cancel frame is sent to the peer
  and the state becomes Canceled; if a cancel frame arrives from the peer before local
  completion, the local deferred result is canceled and no response frame is sent." A
  handler failure is sent as an Application error; a completion after a terminal state is
  rejected; a frame received after a terminal state is ignored.
\<close>

fun rr_step :: "request_response \<Rightarrow> rr_event \<Rightarrow> request_response" where
  "rr_step s CallerCancel =
     (if requester s = Active
      then s\<lparr>caller := Cancelled, requester := Canceled,
             to_responder := to_responder s @ [CancelFrame]\<rparr>
      else s)"
| "rr_step s (HandlerComplete p) =
     (if responder s = Active
      then s\<lparr>handler_result := Done p, responder := Completed,
             to_requester := to_requester s @ [PayloadFrame p]\<rparr>
      else s)"
| "rr_step s (HandlerFail msg) =
     (if responder s = Active
      then s\<lparr>handler_result := Failed APPLICATION_ERROR msg, responder := Errored,
             to_requester := to_requester s @ [ErrorFrame APPLICATION_ERROR msg]\<rparr>
      else s)"
| "rr_step s DeliverToResponder =
     (case to_responder s of
        [] \<Rightarrow> s
      | f # fs \<Rightarrow>
          (if responder s = Active \<and> f = CancelFrame
           then s\<lparr>handler_result := Cancelled, responder := Canceled, to_responder := fs\<rparr>
           else s\<lparr>to_responder := fs\<rparr>))"
| "rr_step s DeliverToRequester =
     (case to_requester s of
        [] \<Rightarrow> s
      | f # fs \<Rightarrow>
          (if requester s = Active
           then (case f of
                   PayloadFrame p \<Rightarrow>
                     s\<lparr>caller := Done p, requester := Completed, to_requester := fs\<rparr>
                 | ErrorFrame c msg \<Rightarrow>
                     s\<lparr>caller := Failed c msg, requester := Errored, to_requester := fs\<rparr>
                 | CancelFrame \<Rightarrow> s\<lparr>to_requester := fs\<rparr>)
           else s\<lparr>to_requester := fs\<rparr>))"

text \<open>
  Modelled from the spec: the events of one exchange are applied one after the other.
\<close>

fun rr_run :: "request_response \<Rightarrow> rr_event list \<Rightarrow> request_response" where
  "rr_run s [] = s"
| "rr_run s (ev # evs) = rr_run (rr_step s ev) evs"

section \<open>Properties of the error taxonomy\<close>

subsection \<open>Auxiliary facts\<close>

lemma invalid_error_frame_msg_longer: "length msg < length (invalid_error_frame_msg sid msg)"
  by (simp add: invalid_error_frame_msg_def)

lemma invalid_error_frame_msg_neq: "invalid_error_frame_msg sid msg \<noteq> msg"
  using invalid_error_frame_msg_longer [of msg sid] by auto

subsection \<open>The dispatch of \<open>RuntimeExceptions.handle\<close>\<close>

text \<open>
  C1. At every nonzero stream id, the codes APPLICATION_ERROR, REJECTED, CANCELED and INVALID
  yield ApplicationException, RejectedException, CanceledException and InvalidException, each
  with the input code as \<open>err_code\<close> and the input message as \<open>err_msg\<close>; every other code
  yields an IllegalArgumentException.
\<close>

theorem handle_stream_scope:
  "sid \<noteq> 0 \<Longrightarrow>
     handle sid APPLICATION_ERROR msg =
       Return \<lparr>cls = ApplicationException, err_code = APPLICATION_ERROR, err_msg = msg\<rparr>
   \<and> handle sid REJECTED msg =
       Return \<lparr>cls = RejectedException, err_code = REJECTED, err_msg = msg\<rparr>
   \<and> handle sid CANCELED msg =
       Return \<lparr>cls = CanceledException, err_code = CANCELED, err_msg = msg\<rparr>
   \<and> handle sid INVALID msg =
       Return \<lparr>cls = InvalidException, err_code = INVALID, err_msg = msg\<rparr>
   \<and> (code \<notin> {APPLICATION_ERROR, REJECTED, CANCELED, INVALID} \<longrightarrow>
        (\<exists>e. handle sid code msg = Return e \<and> cls e = IllegalArgumentException))"
  by (simp add: handle_def)

theorem handle_stream_scope_witness:
  "(7::int) \<noteq> 0 \<and> CONNECTION_ERROR \<notin> {APPLICATION_ERROR, REJECTED, CANCELED, INVALID}
   \<and> handle 7 CANCELED ''late'' =
       Return \<lparr>cls = CanceledException, err_code = CANCELED, err_msg = ''late''\<rparr>
   \<and> (\<exists>e. handle 7 CONNECTION_ERROR ''late'' = Return e \<and> cls e = IllegalArgumentException)"
proof -
  have nz: "(7::int) \<noteq> 0" by simp
  have other: "CONNECTION_ERROR \<notin> {APPLICATION_ERROR, REJECTED, CANCELED, INVALID}" by simp
  from handle_stream_scope [OF nz, of "''late''" CONNECTION_ERROR] nz other
  show ?thesis by blast
qed

text \<open>
  C2. At stream id 0, the codes INVALID_SETUP, UNSUPPORTED_SETUP, REJECTED_SETUP and
  CONNECTION_ERROR yield InvalidSetupException, UnsupportedSetupException,
  RejectedSetupException and ConnectionErrorException, each with the input code as
  \<open>err_code\<close> and the input message as \<open>err_msg\<close>; every other code yields an
  IllegalArgumentException.
\<close>

theorem handle_connection_scope:
  "handle 0 INVALID_SETUP msg =
       Return \<lparr>cls = InvalidSetupException, err_code = INVALID_SETUP, err_msg = msg\<rparr>
   \<and> handle 0 UNSUPPORTED_SETUP msg =
       Return \<lparr>cls = UnsupportedSetupException, err_code = UNSUPPORTED_SETUP, err_msg = msg\<rparr>
   \<and> handle 0 REJECTED_SETUP msg =
       Return \<lparr>cls = RejectedSetupException, err_code = REJECTED_SETUP, err_msg = msg\<rparr>
   \<and> handle 0 CONNECTION_ERROR msg =
       Return \<lparr>cls = ConnectionErrorException, err_code = CONNECTION_ERROR, err_msg = msg\<rparr>
   \<and> (code \<notin> {INVALID_SETUP, UNSUPPORTED_SETUP, REJECTED_SETUP, CONNECTION_ERROR} \<longrightarrow>
        (\<exists>e. handle 0 code msg = Return e \<and> cls e = IllegalArgumentException))"
  by (simp add: handle_def)

theorem handle_connection_scope_witness:
  "CANCELED \<notin> {INVALID_SETUP, UNSUPPORTED_SETUP, REJECTED_SETUP, CONNECTION_ERROR}
   \<and> handle 0 REJECTED_SETUP ''no'' =
       Return \<lparr>cls = RejectedSetupException, err_code = REJECTED_SETUP, err_msg = ''no''\<rparr>
   \<and> (\<exists>e. handle 0 CANCELED ''no'' = Return e \<and> cls e = IllegalArgumentException)"
proof -
  have other: "CANCELED \<notin> {INVALID_SETUP, UNSUPPORTED_SETUP, REJECTED_SETUP, CONNECTION_ERROR}"
    by simp
  from handle_connection_scope [of "''no''" CANCELED] other
  show ?thesis by blast
qed

subsection \<open>First-frame validation\<close>

text \<open>
  C3. \<open>verify_first_frame\<close> raises InvalidSetupException with the message
  "SETUP or RESUME is not a frame with stream id of 0" for every frame whose stream id is
  nonzero, raises InvalidSetupException with the message "first frame must be setup or
  resume" for every frame at stream id 0 that is not a setup frame, and returns for every
  setup frame at stream id 0.
\<close>

theorem verify_first_frame_cases:
  "(stream_id frame \<noteq> 0 \<longrightarrow>
      verify_first_frame frame =
        Raise \<lparr>cls = InvalidSetupException, err_code = INVALID_SETUP,
               err_msg = ''SETUP or RESUME is not a frame with stream id of 0''\<rparr>)
   \<and> (stream_id frame = 0 \<and> frame_type frame \<noteq> SETUP \<longrightarrow>
      verify_first_frame frame =
        Raise \<lparr>cls = InvalidSetupException, err_code = INVALID_SETUP,
               err_msg = ''first frame must be setup or resume''\<rparr>)
   \<and> (stream_id frame = 0 \<and> frame_type frame = SETUP \<longrightarrow>
      verify_first_frame frame = Return ())"
  by (simp add: verify_first_frame_def isinstance_SetupFrame_def
      ERROR_INVALID_STREAM_def ERROR_INVALID_FIRST_FRAME_def)

theorem verify_first_frame_cases_witness:
  "verify_first_frame \<lparr>stream_id = 2, frame_type = REQUEST_RESPONSE\<rparr> =
     Raise \<lparr>cls = InvalidSetupException, err_code = INVALID_SETUP,
            err_msg = ''SETUP or RESUME is not a frame with stream id of 0''\<rparr>
   \<and> verify_first_frame \<lparr>stream_id = 0, frame_type = KEEPALIVE\<rparr> =
     Raise \<lparr>cls = InvalidSetupException, err_code = INVALID_SETUP,
            err_msg = ''first frame must be setup or resume''\<rparr>
   \<and> verify_first_frame \<lparr>stream_id = 0, frame_type = SETUP\<rparr> = Return ()"
  using verify_first_frame_cases [of "\<lparr>stream_id = 2, frame_type = REQUEST_RESPONSE\<rparr>"]
    verify_first_frame_cases [of "\<lparr>stream_id = 0, frame_type = KEEPALIVE\<rparr>"]
    verify_first_frame_cases [of "\<lparr>stream_id = 0, frame_type = SETUP\<rparr>"]
  by simp

text \<open>
  C10. The stream id is checked before the frame class: every frame with a nonzero stream
  id, a setup frame included, is refused with the stream-id message, so the message "first
  frame must be setup or resume" is only ever raised for a frame whose stream id is 0.
\<close>

theorem verify_first_frame_stream_id_first:
  "(stream_id frame \<noteq> 0 \<longrightarrow>
      verify_first_frame frame =
        Raise \<lparr>cls = InvalidSetupException, err_code = INVALID_SETUP,
               err_msg = ''SETUP or RESUME is not a frame with stream id of 0''\<rparr>)
   \<and> (\<forall>e. verify_first_frame frame = Raise e
          \<and> err_msg e = ''first frame must be setup or resume'' \<longrightarrow> stream_id frame = 0)"
  by (auto simp add: verify_first_frame_def isinstance_SetupFrame_def
      ERROR_INVALID_STREAM_def ERROR_INVALID_FIRST_FRAME_def)

theorem verify_first_frame_stream_id_first_witness:
  "verify_first_frame \<lparr>stream_id = 4, frame_type = SETUP\<rparr> =
        Raise \<lparr>cls = InvalidSetupException, err_code = INVALID_SETUP,
               err_msg = ''SETUP or RESUME is not a frame with stream id of 0''\<rparr>
   \<and> verify_first_frame \<lparr>stream_id = 0, frame_type = PAYLOAD\<rparr> =
        Raise \<lparr>cls = InvalidSetupException, err_code = INVALID_SETUP,
               err_msg = ''first frame must be setup or resume''\<rparr>
   \<and> stream_id \<lparr>stream_id = 0, frame_type = PAYLOAD\<rparr> = 0"
  using verify_first_frame_stream_id_first [of "\<lparr>stream_id = 4, frame_type = SETUP\<rparr>"]
    verify_first_frame_stream_id_first [of "\<lparr>stream_id = 0, frame_type = PAYLOAD\<rparr>"]
  by (simp add: verify_first_frame_def isinstance_SetupFrame_def ERROR_INVALID_FIRST_FRAME_def)

text \<open>
  C4, as the specification states it: a resume frame presented as the first frame is
  surfaced as UnsupportedSetup with the message "unsupported resume yet". The code does
  otherwise: a resume frame at stream id 0 is refused as any other frame that is not a setup
  frame, with an InvalidSetupException and the message "first frame must be setup or
  resume".
\<close>

theorem resume_first_frame_counterexample:
  "verify_first_frame \<lparr>stream_id = 0, frame_type = RESUME\<rparr> =
     Raise \<lparr>cls = InvalidSetupException, err_code = INVALID_SETUP,
            err_msg = ''first frame must be setup or resume''\<rparr>
   \<and> InvalidSetupException \<noteq> UnsupportedSetupException
   \<and> INVALID_SETUP \<noteq> UNSUPPORTED_SETUP
   \<and> ''first frame must be setup or resume'' \<noteq> ERROR_UNSUPPORTED_RESUME"
  by (simp add: verify_first_frame_def isinstance_SetupFrame_def
      ERROR_INVALID_FIRST_FRAME_def ERROR_UNSUPPORTED_RESUME_def)

text \<open>
  C4, amended: a resume frame presented as the first frame fails first-frame validation,
  at every stream id; it is never accepted. The failure is an InvalidSetupException with the
  code INVALID_SETUP, and its message is not "unsupported resume yet".
\<close>

theorem resume_first_frame_invalid_setup:
  "frame_type frame = RESUME \<Longrightarrow>
     \<exists>e. verify_first_frame frame = Raise e
       \<and> cls e = InvalidSetupException \<and> err_code e = INVALID_SETUP
       \<and> err_msg e \<noteq> ''unsupported resume yet''"
  by (simp add: verify_first_frame_def isinstance_SetupFrame_def
      ERROR_INVALID_STREAM_def ERROR_INVALID_FIRST_FRAME_def)

theorem resume_first_frame_invalid_setup_witness:
  "frame_type \<lparr>stream_id = 0, frame_type = RESUME\<rparr> = RESUME
   \<and> (\<exists>e. verify_first_frame \<lparr>stream_id = 0, frame_type = RESUME\<rparr> = Raise e
       \<and> cls e = InvalidSetupException \<and> err_code e = INVALID_SETUP
       \<and> err_msg e \<noteq> ''unsupported resume yet'')"
proof -
  have h: "frame_type \<lparr>stream_id = 0, frame_type = RESUME\<rparr> = RESUME" by simp
  from resume_first_frame_invalid_setup [OF h] h show ?thesis by blast
qed

subsection \<open>The diagnostic of an unmapped code\<close>

text \<open>
  C5, as the specification states it: the message of the IllegalArgumentException echoes
  the offending error code. It does not: at stream id 0 the two different codes
  APPLICATION_ERROR and REJECTED, both outside the connection-scope set, yield the same
  message, which is built from the stream id and the original message alone.
\<close>

theorem illegal_argument_msg_counterexample:
  "handle 0 APPLICATION_ERROR ''boom'' =
     Return \<lparr>cls = IllegalArgumentException, err_code = APPLICATION_ERROR,
             err_msg = ''Invalid Error frame in Stream ID 0: 0, '' @ [CHR 0x27] @ ''boom''
                       @ [CHR 0x27]\<rparr>
   \<and> handle 0 REJECTED ''boom'' =
     Return \<lparr>cls = IllegalArgumentException, err_code = REJECTED,
             err_msg = ''Invalid Error frame in Stream ID 0: 0, '' @ [CHR 0x27] @ ''boom''
                       @ [CHR 0x27]\<rparr>
   \<and> APPLICATION_ERROR \<noteq> REJECTED"
  by (simp add: handle_def invalid_error_frame_msg_def str_int_def str_nat.simps digit_char_def)

text \<open>
  C5, amended: for every stream id and every error code outside the set mapped at that
  stream id, the IllegalArgumentException carries the offending code as \<open>err_code\<close>, and its
  message echoes the offending stream id, in decimal, and the original message between
  apostrophes; the code is no part of the message.
\<close>

theorem illegal_argument_msg:
  "code \<notin> (if sid = 0 then {INVALID_SETUP, UNSUPPORTED_SETUP, REJECTED_SETUP, CONNECTION_ERROR}
            else {APPLICATION_ERROR, REJECTED, CANCELED, INVALID}) \<Longrightarrow>
     handle sid code msg =
       Return \<lparr>cls = IllegalArgumentException, err_code = code,
               err_msg = ''Invalid Error frame in Stream ID 0: '' @ str_int sid @ '', ''
                         @ [CHR 0x27] @ msg @ [CHR 0x27]\<rparr>"
  by (simp add: handle_def invalid_error_frame_msg_def split: if_splits)

theorem illegal_argument_msg_witness:
  "UNNAMED_CODE 772 \<notin>
     (if (5::int) = 0 then {INVALID_SETUP, UNSUPPORTED_SETUP, REJECTED_SETUP, CONNECTION_ERROR}
      else {APPLICATION_ERROR, REJECTED, CANCELED, INVALID})
   \<and> handle 5 (UNNAMED_CODE 772) ''boom'' =
       Return \<lparr>cls = IllegalArgumentException, err_code = UNNAMED_CODE 772,
               err_msg = ''Invalid Error frame in Stream ID 0: 5, '' @ [CHR 0x27] @ ''boom''
                         @ [CHR 0x27]\<rparr>"
proof -
  have h: "UNNAMED_CODE 772 \<notin>
     (if (5::int) = 0 then {INVALID_SETUP, UNSUPPORTED_SETUP, REJECTED_SETUP, CONNECTION_ERROR}
      else {APPLICATION_ERROR, REJECTED, CANCELED, INVALID})"
    by simp
  have s: "str_int 5 = ''5''" by (simp add: str_int_def str_nat.simps digit_char_def)
  from illegal_argument_msg [OF h, of "''boom''"] h s show ?thesis by simp
qed

text \<open>
  C9. At a nonzero stream id and a code outside APPLICATION_ERROR, REJECTED, CANCELED and
  INVALID, the message of the IllegalArgumentException is the fixed text "Invalid Error
  frame in Stream ID 0: ", whatever the stream id, followed by the actual stream id and the
  original message between apostrophes; the original message is embedded, not kept as
  \<open>err_msg\<close>.
\<close>

theorem handle_stream_scope_illegal_msg:
  "sid \<noteq> 0 \<Longrightarrow> code \<notin> {APPLICATION_ERROR, REJECTED, CANCELED, INVALID} \<Longrightarrow>
     \<exists>e. handle sid code msg = Return e
       \<and> cls e = IllegalArgumentException
       \<and> err_msg e = ''Invalid Error frame in Stream ID 0: '' @ str_int sid @ '', ''
                      @ [CHR 0x27] @ msg @ [CHR 0x27]
       \<and> err_msg e \<noteq> msg"
  using invalid_error_frame_msg_neq [of sid msg]
  by (simp add: handle_def invalid_error_frame_msg_def)

theorem handle_stream_scope_illegal_msg_witness:
  "(3::int) \<noteq> 0 \<and> INVALID_SETUP \<notin> {APPLICATION_ERROR, REJECTED, CANCELED, INVALID}
   \<and> (\<exists>e. handle 3 INVALID_SETUP ''x'' = Return e
       \<and> cls e = IllegalArgumentException
       \<and> err_msg e = ''Invalid Error frame in Stream ID 0: 3, '' @ [CHR 0x27] @ ''x''
                      @ [CHR 0x27]
       \<and> err_msg e \<noteq> ''x'')"
proof -
  have nz: "(3::int) \<noteq> 0" by simp
  have other: "INVALID_SETUP \<notin> {APPLICATION_ERROR, REJECTED, CANCELED, INVALID}" by simp
  have s: "str_int 3 = ''3''" by (simp add: str_int_def str_nat.simps digit_char_def)
  from handle_stream_scope_illegal_msg [OF nz other, of "''x''"] nz other s
  show ?thesis by simp
qed

subsection \<open>Totality of \<open>RuntimeExceptions.handle\<close>\<close>

text \<open>
  C6. For every stream id, error code and message, \<open>handle\<close> returns an error value and
  does not raise: the value carries the input code, and a code outside the set mapped at
  the stream id yields an IllegalArgumentException. The result depends on the three
  arguments only.
\<close>

theorem handle_total:
  "(\<exists>e. handle sid code msg = Return e \<and> err_code e = code
        \<and> (code \<notin> (if sid = 0
                      then {INVALID_SETUP, UNSUPPORTED_SETUP, REJECTED_SETUP, CONNECTION_ERROR}
                      else {APPLICATION_ERROR, REJECTED, CANCELED, INVALID})
            \<longrightarrow> cls e = IllegalArgumentException))
   \<and> (\<forall>e. handle sid code msg \<noteq> Raise e)"
  by (simp add: handle_def)

theorem handle_total_witness:
  "(\<exists>e. handle 0 (UNNAMED_CODE (- 1)) [] = Return e \<and> err_code e = UNNAMED_CODE (- 1)
        \<and> cls e = IllegalArgumentException)
   \<and> (\<forall>e. handle 0 (UNNAMED_CODE (- 1)) [] \<noteq> Raise e)"
  using handle_total [of 0 "UNNAMED_CODE (- 1)" "[]"] by simp

section \<open>Properties of the interaction state machines\<close>

subsection \<open>Backpressure of request-stream\<close>

lemma stream_run_append: "stream_run s (evs @ evs') = stream_run (stream_run s evs) evs'"
  by (induction evs arbitrary: s) simp_all

lemma stream_run_terminal: "lifecycle s \<noteq> Active \<Longrightarrow> stream_run s evs = s"
proof (induction evs)
  case Nil
  show ?case by simp
next
  case (Cons ev evs)
  then show ?case by (cases ev) simp_all
qed

lemma stream_run_produce:
  "lifecycle s = Active \<Longrightarrow> 0 \<le> credit s \<Longrightarrow> nat (credit s) < length (source s) \<Longrightarrow>
   stream_run s (replicate k Produce) =
     s\<lparr>credit := credit s - int (min k (nat (credit s))),
       source := drop (min k (nat (credit s))) (source s),
       emitted := emitted s @ take (min k (nat (credit s))) (source s)\<rparr>"
proof (induction k arbitrary: s)
  case 0
  show ?case by simp
next
  case (Suc k)
  show ?case
  proof (cases "0 < credit s")
    case False
    with Suc.prems have z: "credit s = 0" by simp
    from Suc.prems z obtain x xs where src: "source s = x # xs"
      by (cases "source s") auto
    have st: "stream_step s Produce = s" using Suc.prems z src by simp
    have "stream_run s (replicate (Suc k) Produce) = stream_run s (replicate k Produce)"
      using st by simp
    also have "\<dots> = s\<lparr>credit := credit s - int (min k (nat (credit s))),
       source := drop (min k (nat (credit s))) (source s),
       emitted := emitted s @ take (min k (nat (credit s))) (source s)\<rparr>"
      using Suc.IH [OF Suc.prems] .
    finally show ?thesis using z by simp
  next
    case True
    from Suc.prems obtain x xs where src: "source s = x # xs"
      by (cases "source s") auto
    define s' where "s' = s\<lparr>credit := credit s - 1, source := xs, emitted := emitted s @ [x]\<rparr>"
    have st: "stream_step s Produce = s'" using Suc.prems True src by (simp add: s'_def)
    have p1: "lifecycle s' = Active" using Suc.prems by (simp add: s'_def)
    have p2: "0 \<le> credit s'" using True by (simp add: s'_def)
    have p3: "nat (credit s') < length (source s')" using Suc.prems True src by (simp add: s'_def) 
    have mn: "min (Suc k) (nat (credit s)) = Suc (min k (nat (credit s')))"
    proof -
      have "nat (credit s) = Suc (nat (credit s - 1))" using True by arith
      then show ?thesis by (simp add: s'_def)
    qed
    have "stream_run s (replicate (Suc k) Produce) = stream_run s' (replicate k Produce)"
      using st by simp
    also have "\<dots> = s'\<lparr>credit := credit s' - int (min k (nat (credit s'))),
       source := drop (min k (nat (credit s'))) (source s'),
       emitted := emitted s' @ take (min k (nat (credit s'))) (source s')\<rparr>"
      using Suc.IH [OF p1 p2 p3] .
    finally show ?thesis unfolding mn using src by (simp add: s'_def)
  qed
qed

lemma stream_step_no_credit:
  "lifecycle s \<noteq> Active \<or> credit s \<le> 0 \<Longrightarrow> \<not> is_request_n ev \<Longrightarrow>
   emitted (stream_step s ev) = emitted s
   \<and> (lifecycle (stream_step s ev) \<noteq> Active \<or> credit (stream_step s ev) \<le> 0)"
  by (cases ev) (auto split: list.splits)

lemma stream_run_no_credit:
  "lifecycle s \<noteq> Active \<or> credit s \<le> 0 \<Longrightarrow> \<forall>ev \<in> set evs. \<not> is_request_n ev \<Longrightarrow>
   emitted (stream_run s evs) = emitted s"
proof (induction evs arbitrary: s)
  case Nil
  show ?case by simp
next
  case (Cons ev evs)
  from Cons.prems have nr: "\<not> is_request_n ev" and rest: "\<forall>ev \<in> set evs. \<not> is_request_n ev"
    by simp_all
  from stream_step_no_credit [OF Cons.prems(1) nr]
  have e: "emitted (stream_step s ev) = emitted s"
    and i: "lifecycle (stream_step s ev) \<noteq> Active \<or> credit (stream_step s ev) \<le> 0"
    by simp_all
  from Cons.IH [OF i rest] e show ?case by simp
qed

lemma stream_run_initial_credit:
  assumes "n < length items" and "n \<le> k"
  shows "stream_run (initiate_stream n items) (replicate k Produce) =
           \<lparr>lifecycle = Active, credit = 0, source = drop n items, emitted = take n items\<rparr>"
proof -
  have a: "lifecycle (initiate_stream n items) = Active"
    and c: "0 \<le> credit (initiate_stream n items)"
    and l: "nat (credit (initiate_stream n items)) < length (source (initiate_stream n items))"
    using assms by (simp_all add: initiate_stream_def)
  have m: "min k n = n" using assms by simp
  show ?thesis
    using stream_run_produce [OF a c l, of k] m by (simp add: initiate_stream_def)
qed

text \<open>
  C7. A request-stream initiated with credit 3 over a producer of more than 3 items emits
  exactly the first 3 items, however many turns the producer is given, and nothing more as
  long as no request-n frame arrives. Over the 8 items 0 to 7: items 0 to 2 are emitted at
  once; items 3 and 4 follow once a request-n frame has added a credit of 2; after a
  subsequent cancel nothing more is emitted, whatever happens next.
\<close>

theorem request_stream_backpressure:
  "(3 < length items \<and> 3 \<le> k \<and> (\<forall>ev \<in> set evs. \<not> is_request_n ev) \<longrightarrow>
      emitted (stream_run (initiate_stream 3 items) (replicate k Produce @ evs)) = take 3 items)
   \<and> (3 \<le> j \<and> 2 \<le> k \<longrightarrow>
      emitted (stream_run (initiate_stream 3 [0, 1, 2, 3, 4, 5, 6, 7 :: nat])
        (replicate j Produce)) = [0, 1, 2]
      \<and> emitted (stream_run (initiate_stream 3 [0, 1, 2, 3, 4, 5, 6, 7 :: nat])
        (replicate j Produce @ RequestN 2 # replicate k Produce)) = [0, 1, 2, 3, 4]
      \<and> emitted (stream_run (initiate_stream 3 [0, 1, 2, 3, 4, 5, 6, 7 :: nat])
        (replicate j Produce @ RequestN 2 # replicate k Produce @ Cancel # evs')) =
          [0, 1, 2, 3, 4])"
proof (intro conjI impI)
  assume h: "3 < length items \<and> 3 \<le> k \<and> (\<forall>ev \<in> set evs. \<not> is_request_n ev)"
  then have r: "stream_run (initiate_stream 3 items) (replicate k Produce) =
      \<lparr>lifecycle = Active, credit = 0, source = drop 3 items, emitted = take 3 items\<rparr>"
    using stream_run_initial_credit [of 3 items k] by simp
  have "emitted (stream_run (stream_run (initiate_stream 3 items) (replicate k Produce)) evs) =
      emitted (stream_run (initiate_stream 3 items) (replicate k Produce))"
    using h by (intro stream_run_no_credit) (simp_all add: r)
  then show "emitted (stream_run (initiate_stream 3 items) (replicate k Produce @ evs)) =
      take 3 items"
    by (simp add: stream_run_append r)
next
  let ?src = "[0, 1, 2, 3, 4, 5, 6, 7 :: nat]"
  assume h: "3 \<le> j \<and> 2 \<le> k"
  have r3: "stream_run (initiate_stream 3 ?src) (replicate j Produce) =
      \<lparr>lifecycle = Active, credit = 0, source = [3, 4, 5, 6, 7], emitted = [0, 1, 2]\<rparr>"
    using h stream_run_initial_credit [of 3 ?src j] by simp
  show "emitted (stream_run (initiate_stream 3 ?src) (replicate j Produce)) = [0, 1, 2]"
    using r3 by simp
  define s where
    "s = \<lparr>lifecycle = Active, credit = 2, source = [3, 4, 5, 6, 7 :: nat], emitted = [0, 1, 2]\<rparr>"
  have pre: "stream_run (initiate_stream 3 ?src) (replicate j Produce @ RequestN 2 # rest) =
      stream_run s rest" for rest
    using r3 by (simp add: stream_run_append s_def)
  have m: "min k 2 = 2" using h by simp
  have r5: "stream_run s (replicate k Produce) =
      \<lparr>lifecycle = Active, credit = 0, source = [5, 6, 7], emitted = [0, 1, 2, 3, 4]\<rparr>"
    using stream_run_produce [of s k] m by (simp add: s_def)
  show "emitted (stream_run (initiate_stream 3 ?src)
      (replicate j Produce @ RequestN 2 # replicate k Produce)) = [0, 1, 2, 3, 4]"
    using pre [of "replicate k Produce"] r5 by simp
  have "stream_run s (replicate k Produce @ Cancel # evs') =
      stream_run (stream_step (stream_run s (replicate k Produce)) Cancel) evs'"
    by (simp add: stream_run_append)
  also have "\<dots> = \<lparr>lifecycle = Canceled, credit = 0, source = [5, 6, 7],
      emitted = [0, 1, 2, 3, 4]\<rparr>"
    using r5 by (simp add: stream_run_terminal)
  finally show "emitted (stream_run (initiate_stream 3 ?src)
      (replicate j Produce @ RequestN 2 # replicate k Produce @ Cancel # evs')) =
      [0, 1, 2, 3, 4]"
    using pre [of "replicate k Produce @ Cancel # evs'"] by simp
qed

theorem request_stream_backpressure_witness:
  "emitted (stream_run (initiate_stream 3 ''abcdef'') (replicate 5 Produce @ [Cancel, Produce])) =
      ''abc''
   \<and> emitted (stream_run (initiate_stream 3 [0, 1, 2, 3, 4, 5, 6, 7 :: nat])
        (replicate 3 Produce)) = [0, 1, 2]
   \<and> emitted (stream_run (initiate_stream 3 [0, 1, 2, 3, 4, 5, 6, 7 :: nat])
        (replicate 3 Produce @ RequestN 2 # replicate 2 Produce)) = [0, 1, 2, 3, 4]
   \<and> emitted (stream_run (initiate_stream 3 [0, 1, 2, 3, 4, 5, 6, 7 :: nat])
        (replicate 3 Produce @ RequestN 2 # replicate 2 Produce @ Cancel # [RequestN 4, Produce])) =
          [0, 1, 2, 3, 4]"
  using request_stream_backpressure [of "''abcdef''" 5 "[Cancel, Produce]" 3 "[RequestN 4, Produce]"]
    request_stream_backpressure [of "[]" 2 "[]" 3 "[RequestN 4, Produce]"]
  by simp

subsection \<open>Cancellation of request-response\<close>

lemma rr_run_append: "rr_run s (evs @ evs') = rr_run (rr_run s evs) evs'"
  by (induction evs arbitrary: s) simp_all

lemma rr_step_caller_cancelled:
  "caller s = Cancelled \<and> requester s = Canceled \<Longrightarrow>
   caller (rr_step s ev) = Cancelled \<and> requester (rr_step s ev) = Canceled"
  by (cases ev) (auto split: list.splits rr_frame.splits)

lemma rr_run_caller_cancelled:
  "caller s = Cancelled \<and> requester s = Canceled \<Longrightarrow> caller (rr_run s evs) = Cancelled"
proof (induction evs arbitrary: s)
  case Nil
  then show ?case by simp
next
  case (Cons ev evs)
  from rr_step_caller_cancelled [OF Cons.prems] Cons.IH show ?case by simp
qed

lemma rr_step_handler_cancelled:
  "handler_result s = Cancelled \<and> responder s = Canceled \<Longrightarrow>
   handler_result (rr_step s ev) = Cancelled \<and> responder (rr_step s ev) = Canceled"
  by (cases ev) (auto split: list.splits rr_frame.splits)

lemma rr_run_handler_cancelled:
  "handler_result s = Cancelled \<and> responder s = Canceled \<Longrightarrow>
   handler_result (rr_run s evs) = Cancelled"
proof (induction evs arbitrary: s)
  case Nil
  then show ?case by simp
next
  case (Cons ev evs)
  from rr_step_handler_cancelled [OF Cons.prems] Cons.IH show ?case by simp
qed

lemma rr_step_not_cancelled:
  "handler_result s \<noteq> Cancelled \<and> CancelFrame \<notin> set (to_responder s) \<Longrightarrow>
   ev \<noteq> CallerCancel \<Longrightarrow>
   handler_result (rr_step s ev) \<noteq> Cancelled \<and> CancelFrame \<notin> set (to_responder (rr_step s ev))"
  by (cases ev) (auto split: list.splits rr_frame.splits)

lemma rr_run_not_cancelled:
  "handler_result s \<noteq> Cancelled \<and> CancelFrame \<notin> set (to_responder s) \<Longrightarrow>
   CallerCancel \<notin> set evs \<Longrightarrow> handler_result (rr_run s evs) \<noteq> Cancelled"
proof (induction evs arbitrary: s)
  case Nil
  then show ?case by simp
next
  case (Cons ev evs)
  from Cons.prems(2) have ne: "ev \<noteq> CallerCancel" and rest: "CallerCancel \<notin> set evs"
    by auto
  from Cons.IH [OF rr_step_not_cancelled [OF Cons.prems(1) ne] rest] show ?case by simp
qed

lemma rr_run_idle:
  "to_responder s = [] \<and> to_requester s = [] \<Longrightarrow>
   set evs \<subseteq> {DeliverToResponder, DeliverToRequester} \<Longrightarrow> rr_run s evs = s"
proof (induction evs)
  case Nil
  show ?case by simp
next
  case (Cons ev evs)
  from Cons.prems have "ev = DeliverToResponder \<or> ev = DeliverToRequester" by auto
  then have "rr_step s ev = s" using Cons.prems(1) by auto
  with Cons show ?case by simp
qed

text \<open>
  C8. As long as the caller has not cancelled, the deferred result of the handler is not
  cancelled. When the caller cancels a pending request-response before the handler
  completes, the caller's deferred result is cancelled, which is neither a completion nor a
  peer-sent error, and stays so; once the cancel frame is delivered, the handler's deferred
  result is cancelled and stays so.
\<close>

theorem request_response_cancellation:
  "(CallerCancel \<notin> set evs \<longrightarrow> handler_result (rr_run pending_call evs) \<noteq> Cancelled)
   \<and> (set idle \<subseteq> {DeliverToResponder, DeliverToRequester} \<longrightarrow>
        caller (rr_run pending_call (idle @ CallerCancel # evs)) = Cancelled
      \<and> handler_result (rr_run pending_call (idle @ CallerCancel # DeliverToResponder # evs)) =
          Cancelled)"
proof (intro conjI impI)
  assume "CallerCancel \<notin> set evs"
  then show "handler_result (rr_run pending_call evs) \<noteq> Cancelled"
    by (intro rr_run_not_cancelled) (simp_all add: pending_call_def)
next
  assume i: "set idle \<subseteq> {DeliverToResponder, DeliverToRequester}"
  have r: "rr_run pending_call idle = pending_call"
    using i by (intro rr_run_idle) (simp_all add: pending_call_def)
  show "caller (rr_run pending_call (idle @ CallerCancel # evs)) = Cancelled"
    by (simp add: rr_run_append r) (simp add: pending_call_def rr_run_caller_cancelled)
  show "handler_result (rr_run pending_call (idle @ CallerCancel # DeliverToResponder # evs)) =
      Cancelled"
    by (simp add: rr_run_append r) (simp add: pending_call_def rr_run_handler_cancelled)
qed

theorem request_response_cancellation_witness:
  "handler_result (rr_run pending_call [DeliverToResponder, DeliverToRequester]) \<noteq> Cancelled
   \<and> caller (rr_run pending_call
        ([DeliverToResponder, DeliverToRequester] @ CallerCancel
          # [HandlerComplete (Some ''late'', None), DeliverToRequester])) = Cancelled
   \<and> handler_result (rr_run pending_call
        ([DeliverToResponder, DeliverToRequester] @ CallerCancel # DeliverToResponder
          # [HandlerComplete (Some ''late'', None), DeliverToRequester])) = Cancelled"
  using request_response_cancellation
      [of "[DeliverToResponder, DeliverToRequester]" "[DeliverToResponder, DeliverToRequester]"]
    request_response_cancellation
      [of "[HandlerComplete (Some ''late'', None), DeliverToRequester]"
          "[DeliverToResponder, DeliverToRequester]"]
  by simp

end
